theory Spec2Isabelle
  imports Main
begin

section \<open>Data model of the caldav package\<close>

text \<open>
  Go strings are byte sequences, so they are modelled as \<open>string\<close> (a list of 8-bit
  characters) and \<open>len\<close> is \<open>length\<close>. A \<open>time.Time\<close> is modelled by the instant it
  denotes, counted from Go's zero time, so that \<open>IsZero\<close> is equality with 0 and
  \<open>t.After(u)\<close> is \<open>u < t\<close>. The calendar document \<open>ical.Calendar\<close> belongs to an
  external library and is kept abstract as the type parameter \<open>'cal\<close>.
\<close>

type_synonym Time = int

definition After :: "Time \<Rightarrow> Time \<Rightarrow> bool" where
  "After t u = (u < t)"

definition IsZero :: "Time \<Rightarrow> bool" where
  "IsZero t = (t = 0)"

record 'cal CalendarObject =
  Path :: string
  ModTime :: Time
  ContentLength :: int
  ETag :: string
  Data :: "'cal option"

subsection \<open>Errors\<close>

text \<open>
  The sentinel errors of the package, the error values built by \<open>fmt.Errorf\<close> (with and
  without \<open>%w\<close>) and \<open>errors.Join\<close>, the HTTP status error of the \<open>internal\<close> package, and
  opaque errors of the collaborators. \<open>PanicNilDereference\<close> is not a returned error: it
  marks a call that ends in a nil-pointer run-time panic.
\<close>

datatype error =
    ErrSyncTokenExpired
  | ErrPreconditionFailed
  | ErrConflict
  | ErrNotFound
  | ErrMergeNotSupported
  | ErrSyntax
  | HTTPError int
  | Errorf string
  | Wrapped string error
  | JoinError "error list"
  | Other string
  | PanicNilDereference

subsection \<open>conflict.go\<close>

text \<open>\<open>type ConflictDecision int\<close> with the constants numbered by \<open>iota\<close>.\<close>

type_synonym ConflictDecision = int

definition UseLocal :: ConflictDecision where "UseLocal = 0"
definition UseRemote :: ConflictDecision where "UseRemote = 1"
definition Merge :: ConflictDecision where "Merge = 2"
definition Skip :: ConflictDecision where "Skip = 3"

definition ConflictDecision_String :: "ConflictDecision \<Rightarrow> string" where
  "ConflictDecision_String cd =
     (if cd = UseLocal then ''use_local''
      else if cd = UseRemote then ''use_remote''
      else if cd = Merge then ''merge''
      else if cd = Skip then ''skip''
      else ''unknown'')"

text \<open>
  The interface \<open>ConflictResolver\<close> has the single method \<open>Resolve\<close>; an implementation
  is the function it computes. A \<open>*CalendarObject\<close> argument is an option, \<open>None\<close> for nil.
\<close>

type_synonym 'cal ConflictResolver =
  "'cal CalendarObject option \<Rightarrow> 'cal CalendarObject option \<Rightarrow> ConflictDecision"

fun LastModifiedWinsResolver :: "'cal ConflictResolver" where
  "LastModifiedWinsResolver None None = Skip"
| "LastModifiedWinsResolver None (Some remote) = UseRemote"
| "LastModifiedWinsResolver (Some local) None = UseLocal"
| "LastModifiedWinsResolver (Some local) (Some remote) =
     (if After (ModTime local) (ModTime remote) then UseLocal
      else if After (ModTime remote) (ModTime local) then UseRemote
      else UseLocal)"

fun AlwaysUseLocalResolver :: "'cal ConflictResolver" where
  "AlwaysUseLocalResolver None _ = UseRemote"
| "AlwaysUseLocalResolver (Some local) _ = UseLocal"

fun AlwaysUseRemoteResolver :: "'cal ConflictResolver" where
  "AlwaysUseRemoteResolver _ None = UseLocal"
| "AlwaysUseRemoteResolver _ (Some remote) = UseRemote"

subsection \<open>Sync results\<close>

record SyncDeletedItem =
  sdi_Path :: string
  UID :: string

record 'cal SyncResult =
  Created :: "'cal CalendarObject list"
  Updated :: "'cal CalendarObject list"
  Deleted :: "SyncDeletedItem list"
  SyncToken :: string

text \<open>
  The backwards scan of \<open>ExtractUID\<close> for the last slash: \<open>lastSlash_scan p n\<close> inspects
  the indices \<open>n - 1\<close> down to 0 and yields -1 when no slash is found.
\<close>

fun lastSlash_scan :: "string \<Rightarrow> nat \<Rightarrow> int" where
  "lastSlash_scan p 0 = - 1"
| "lastSlash_scan p (Suc i) = (if p ! i = CHR ''/'' then int i else lastSlash_scan p i)"

definition ExtractUID :: "SyncDeletedItem \<Rightarrow> string" where
  "ExtractUID sdi =
     (if UID sdi \<noteq> [] then UID sdi
      else if sdi_Path sdi = [] then []
      else
        let lastSlash = lastSlash_scan (sdi_Path sdi) (length (sdi_Path sdi));
            filename = drop (nat (lastSlash + 1)) (sdi_Path sdi)
        in if length filename > 4 \<and> drop (length filename - 4) filename = ''.ics''
           then take (length filename - 4) filename
           else filename)"





definition TotalChanges :: "'cal SyncResult \<Rightarrow> nat" where
  "TotalChanges sr = length (Created sr) + length (Updated sr) + length (Deleted sr)"

subsection \<open>String helpers of the standard library\<close>

text \<open>\<open>strings.Split\<close> on a one-byte separator: never empty, \<open>[[]]\<close> on the empty string.\<close>

fun strings_Split :: "string \<Rightarrow> char \<Rightarrow> string list" where
  "strings_Split [] sep = [[]]"
| "strings_Split (c # cs) sep =
     (if c = sep then [] # strings_Split cs sep
      else (case strings_Split cs sep of
              [] \<Rightarrow> [[c]]
            | p # ps \<Rightarrow> (c # p) # ps))"

definition strings_HasSuffix :: "string \<Rightarrow> string \<Rightarrow> bool" where
  "strings_HasSuffix s suffix =
     (length suffix \<le> length s \<and> drop (length s - length suffix) s = suffix)"


text \<open>\<open>Client.extractUIDFromPath\<close>; the receiver is not used.\<close>

definition extractUIDFromPath :: "string \<Rightarrow> string" where
  "extractUIDFromPath path =
     (let parts = strings_Split path (CHR ''/'')
      in if length parts = 0 then []
         else
           let filename = parts ! (length parts - 1)
           in if strings_HasSuffix filename ''.ics''
              then take (length filename - 4) filename
              else filename)"

subsection \<open>HTTP messages and the multistatus model\<close>

text \<open>
  An \<open>http.Header\<close> is read through \<open>Get\<close> only, which yields the empty string for a
  missing key; it is a map from the header names the code writes to their first value.
\<close>

type_synonym Header = "string \<rightharpoonup> string"


record Request =
  Method :: string
  URLPath :: string
  ReqHeader :: Header
  ReqBody :: "string option"

text \<open>\<open>RequestURLPath\<close> is \<open>resp.Request.URL.Path\<close>.\<close>

record HTTPResponse =
  StatusCode :: int
  RespHeader :: Header
  RespBody :: string
  RequestURLPath :: string

text \<open>
  The multistatus types of the \<open>internal\<close> package, as far as the callers in
  \<open>client.go\<close> read them. The properties of a propstat are raw XML elements, here
  pairs of an element name and its content; the decoders that read them are collaborators.
\<close>

type_synonym RawProp = "(string \<times> string) list"

record Status =
  Code :: int
  Text :: string

record PropStat =
  Prop :: RawProp
  ps_Status :: Status

record Response =
  Hrefs :: "string list"
  resp_Status :: "Status option"
  PropStats :: "PropStat list"

record MultiStatus =
  Responses :: "Response list"
  ms_SyncToken :: string



record 'cal Client =
  conflictResolver :: "'cal ConflictResolver option"

definition SetConflictResolver ::
  "'cal Client \<Rightarrow> 'cal ConflictResolver option \<Rightarrow> 'cal Client" where
  "SetConflictResolver c resolver = c\<lparr>conflictResolver := resolver\<rparr>"

subsection \<open>Queries\<close>

text \<open>
  The query types are declared in a file of the package that is not among the sources;
  they are taken from their uses in \<open>client.go\<close> and in the tests. A Go slice is a
  window on a backing array that the slice value does not own: copying a struct that
  holds a slice copies the window, not the array. The nested filters
  \<open>Comps []CompFilter\<close> are therefore kept in a store of backing arrays, and a
  \<open>CompFilter\<close> value holds the window. The store is well formed for a slice when
  \<open>offset + len\<close> does not exceed the length of its array. The component request is
  only read, so it is a tree of values.
\<close>

record Slice =
  array :: nat
  offset :: nat
  len :: nat

text \<open>The test \<open>p != nil\<close> on a pointer.\<close>

fun not_nil :: "'a option \<Rightarrow> bool" where
  "not_nil None = False"
| "not_nil (Some x) = True"

definition nil_Slice :: Slice where
  "nil_Slice = \<lparr>array = 0, offset = 0, len = 0\<rparr>"

record CompFilter =
  Name :: string
  Start :: Time
  End :: Time
  Props :: Slice
  Comps :: Slice

type_synonym Store = "nat \<Rightarrow> CompFilter list"

definition slice_get :: "Store \<Rightarrow> Slice \<Rightarrow> nat \<Rightarrow> CompFilter" where
  "slice_get st s i = st (array s) ! (offset s + i)"

definition slice_set :: "Store \<Rightarrow> Slice \<Rightarrow> nat \<Rightarrow> CompFilter \<Rightarrow> Store" where
  "slice_set st s i v = st(array s := (st (array s))[offset s + i := v])"

datatype CalendarCompRequest =
  CalendarCompRequest (cr_Name: string) (AllProps: bool) (cr_Props: "string list")
    (AllComps: bool) (cr_Comps: "CalendarCompRequest list") (Expand: "(Time \<times> Time) option")

record CalendarQuery =
  q_CompRequest :: CalendarCompRequest
  q_CompFilter :: CompFilter

record QueryOptions =
  TimeRangeStart :: "Time option"
  TimeRangeEnd :: "Time option"
  qo_SyncToken :: string

subsection \<open>Collaborators\<close>

text \<open>
  Everything \<open>client.go\<close> calls outside the package is a field of the environment: the
  transport of the \<open>internal\<close> client (a state machine on a world \<open>'w\<close>, which also
  holds the wall clock), the property decoders and helpers of \<open>internal\<close>, the
  calendar-document codec, and the standard-library parsers. Theorems hold for every
  environment. \<open>url_Parse\<close> yields the \<open>Path\<close> of the parsed URL; \<open>internal_EncodeProp\<close>
  is the result of the one \<open>EncodeProp\<close> call of \<open>SyncCalendar\<close>, whose arguments are
  constants; \<open>ic_QueryReport\<close> stands for lines 320 to 336 of \<open>QueryCalendar\<close>, which
  encode the query into a REPORT body and run the request: they read the query and the
  store of filter arrays and write neither; \<open>strconv_Unquote_rest\<close> is \<open>strconv.Unquote\<close> outside the fragment that
  \<open>strconv_Unquote\<close> below spells out.
\<close>

record ('w, 'cal) Env =
  ical_Encode :: "'cal \<Rightarrow> error + string"
  ical_Decode :: "string \<Rightarrow> error + 'cal"
  ic_NewRequest :: "string \<Rightarrow> string \<Rightarrow> string option \<Rightarrow> error + Request"
  ic_Do :: "Request \<Rightarrow> 'w \<Rightarrow> (error + HTTPResponse) \<times> 'w"
  ic_SyncCollection ::
    "string \<Rightarrow> string \<Rightarrow> int \<Rightarrow> RawProp \<Rightarrow> 'w \<Rightarrow> (error + MultiStatus) \<times> 'w"
  ic_QueryReport ::
    "Store \<Rightarrow> string \<Rightarrow> CalendarQuery \<Rightarrow> 'w \<Rightarrow> (error + MultiStatus) \<times> 'w"
  time_Now :: "'w \<Rightarrow> Time \<times> 'w"
  internal_EncodeProp :: "error + RawProp"
  internal_DepthOne :: int
  internal_IsNotFound :: "error \<Rightarrow> bool"
  Response_Path :: "Response \<Rightarrow> error + string"
  Response_Err :: "Response \<Rightarrow> error option"
  DecodeProp_calendarData :: "Response \<Rightarrow> error + string"
  DecodeProp_GetLastModified :: "Response \<Rightarrow> error + Time"
  DecodeProp_GetETag :: "Response \<Rightarrow> error + string"
  DecodeProp_GetContentLength :: "Response \<Rightarrow> error + int"
  Prop_Decode_GetETag :: "RawProp \<Rightarrow> error + string"
  Prop_Decode_calendarData :: "RawProp \<Rightarrow> error + string"
  url_Parse :: "string \<Rightarrow> error + string"
  strconv_Unquote_rest :: "string \<Rightarrow> error + string"
  strconv_ParseInt :: "string \<Rightarrow> error + int"
  http_ParseTime :: "string \<Rightarrow> error + Time"
  mime_ParseMediaType :: "string \<Rightarrow> error + string"
  strings_EqualFold :: "string \<Rightarrow> string \<Rightarrow> bool"




text \<open>
  \<open>errors.As(err, &httpErr)\<close> for the target type \<open>*internal.HTTPError\<close>: the code of
  the first HTTP status error in the chain of \<open>err\<close>, depth first.
\<close>

fun as_HTTPError :: "error \<Rightarrow> int option" where
  "as_HTTPError (HTTPError code) = Some code"
| "as_HTTPError (Wrapped msg e) = as_HTTPError e"
| "as_HTTPError (JoinError es) =
     (case filter (\<lambda>r. r \<noteq> None) (map as_HTTPError es) of
        [] \<Rightarrow> None
      | r # _ \<Rightarrow> r)"
| "as_HTTPError _ = None"

text \<open>\<open>errors.Join\<close> on a list of non-nil errors: nil when the list is empty.\<close>

definition errors_Join :: "error list \<Rightarrow> error option" where
  "errors_Join errs = (if errs = [] then None else Some (JoinError errs))"




subsection \<open>client.go: reading and writing one object\<close>






subsection \<open>client.go: decoding a multistatus response\<close>

text \<open>
  The pattern \<open>err != nil && !internal.IsNotFound(err)\<close> after \<open>DecodeProp\<close>: a
  not-found error is tolerated and the target variable keeps its zero value.
\<close>

definition tolerate :: "('w, 'cal) Env \<Rightarrow> 'a \<Rightarrow> error + 'a \<Rightarrow> error + 'a" where
  "tolerate env zero r =
     (case r of
        Inr v \<Rightarrow> Inr v
      | Inl err \<Rightarrow> if internal_IsNotFound env err then Inr zero else Inl err)"

text \<open>
  What one round of the loop of \<open>decodeCalendarObjectList\<close> does: record a path error
  and continue, continue without a record, return the error, or append an object.
\<close>

datatype 'cal loop_step =
    RecordError error
  | SkipEntry
  | Abort error
  | Append "'cal CalendarObject"

definition decode_entry :: "('w, 'cal) Env \<Rightarrow> Response \<Rightarrow> 'cal loop_step" where
  "decode_entry env resp =
     (case Response_Path env resp of
        Inl err \<Rightarrow> RecordError err
      | Inr path \<Rightarrow>
          (case tolerate env [] (DecodeProp_calendarData env resp) of
             Inl err \<Rightarrow> Abort err
           | Inr calData \<Rightarrow>
               if length calData = 0 then SkipEntry
               else
                 (case tolerate env 0 (DecodeProp_GetLastModified env resp) of
                    Inl err \<Rightarrow> Abort err
                  | Inr getLastMod \<Rightarrow>
                      (case tolerate env [] (DecodeProp_GetETag env resp) of
                         Inl err \<Rightarrow> Abort err
                       | Inr getETag \<Rightarrow>
                           (case tolerate env 0 (DecodeProp_GetContentLength env resp) of
                              Inl err \<Rightarrow> Abort err
                            | Inr getContentLength \<Rightarrow>
                                (case ical_Decode env calData of
                                   Inl err \<Rightarrow> Abort err
                                 | Inr data \<Rightarrow>
                                     Append \<lparr>Path = path, ModTime = getLastMod,
                                             ContentLength = getContentLength,
                                             ETag = getETag, Data = Some data\<rparr>))))))"

text \<open>
  The result is the Go pair \<open>([]CalendarObject, error)\<close>: \<open>None\<close> is the nil slice and
  the nil error.
\<close>

fun decodeCalendarObjectList_loop ::
  "('w, 'cal) Env \<Rightarrow> Response list \<Rightarrow> 'cal CalendarObject list \<Rightarrow> error list
    \<Rightarrow> 'cal CalendarObject list option \<times> error option" where
  "decodeCalendarObjectList_loop env [] addrs errs = (Some addrs, errors_Join errs)"
| "decodeCalendarObjectList_loop env (resp # rest) addrs errs =
     (case decode_entry env resp of
        RecordError err \<Rightarrow> decodeCalendarObjectList_loop env rest addrs (errs @ [err])
      | SkipEntry \<Rightarrow> decodeCalendarObjectList_loop env rest addrs errs
      | Abort err \<Rightarrow> (None, Some err)
      | Append obj \<Rightarrow> decodeCalendarObjectList_loop env rest (addrs @ [obj]) errs)"

definition decodeCalendarObjectList ::
  "('w, 'cal) Env \<Rightarrow> MultiStatus
    \<Rightarrow> 'cal CalendarObject list option \<times> error option" where
  "decodeCalendarObjectList env ms = decodeCalendarObjectList_loop env (Responses ms) [] []"

text \<open>The reading of a list of loop rounds that the decoder's contract speaks of.\<close>

fun is_Abort :: "'cal loop_step \<Rightarrow> bool" where
  "is_Abort (Abort err) = True"
| "is_Abort _ = False"

definition appended :: "'cal loop_step list \<Rightarrow> 'cal CalendarObject list" where
  "appended steps = [obj. Append obj \<leftarrow> steps]"

definition recorded :: "'cal loop_step list \<Rightarrow> error list" where
  "recorded steps = [err. RecordError err \<leftarrow> steps]"

subsection \<open>client.go: the time range of a calendar query\<close>

text \<open>
  The loop of \<open>QueryCalendar\<close> over \<open>modifiedQuery.CompFilter.Comps\<close>, from index \<open>i\<close>.
  Dereferencing a nil \<open>*time.Time\<close> panics; the assignment to \<open>Start\<close> has then already
  been made when only the end is nil.
\<close>

function QueryCalendar_loop ::
  "QueryOptions \<Rightarrow> Slice \<Rightarrow> nat \<Rightarrow> Store \<Rightarrow> error option \<times> Store" where
  "QueryCalendar_loop opts comps i st =
     (if i < len comps then
        (if Name (slice_get st comps i) = ''VEVENT'' then
           (case TimeRangeStart opts of
              None \<Rightarrow> (Some PanicNilDereference, st)
            | Some start \<Rightarrow>
                let st1 = slice_set st comps i ((slice_get st comps i)\<lparr>Start := start\<rparr>)
                in (case TimeRangeEnd opts of
                      None \<Rightarrow> (Some PanicNilDereference, st1)
                    | Some end \<Rightarrow>
                        (None, slice_set st1 comps i ((slice_get st1 comps i)\<lparr>End := end\<rparr>))))
         else QueryCalendar_loop opts comps (i + 1) st)
      else (None, st))"
  by pat_completeness auto
termination
  by (relation "measure (\<lambda>(opts, comps, i, st). len comps - i)") auto

text \<open>
  \<open>modifiedQuery := *query\<close> copies the struct, and with it the slice windows; the
  backing arrays stay in the store, shared with the caller's query.
\<close>

definition QueryCalendar ::
  "('w, 'cal) Env \<Rightarrow> Store \<Rightarrow> 'w \<Rightarrow> string \<Rightarrow> CalendarQuery \<Rightarrow> QueryOptions option
    \<Rightarrow> ('cal CalendarObject list option \<times> error option) \<times> Store \<times> 'w" where
  "QueryCalendar env st w calendar query opts =
     (let modifiedQuery = query;
          opts1 = (case opts of
                     None \<Rightarrow> \<lparr>TimeRangeStart = None, TimeRangeEnd = None, qo_SyncToken = []\<rparr>
                   | Some o1 \<Rightarrow> o1)
      in case (if not_nil (TimeRangeStart opts1) \<or> not_nil (TimeRangeEnd opts1)
               then QueryCalendar_loop opts1 (Comps (q_CompFilter modifiedQuery)) 0 st
               else (None, st)) of
           (Some panic, st1) \<Rightarrow> ((None, Some panic), st1, w)
         | (None, st1) \<Rightarrow>
             (case ic_QueryReport env st1 calendar modifiedQuery w of
                (Inl err, w1) \<Rightarrow> ((None, Some err), st1, w1)
              | (Inr ms, w1) \<Rightarrow> (decodeCalendarObjectList env ms, st1, w1)))"

subsection \<open>client.go: incremental synchronisation\<close>





subsection \<open>A scripted environment\<close>

text \<open>
  A concrete environment for examples. The world is the list of replies the server
  will give, in order; the clock stands at 1000; a calendar document is its text, well
  formed when it starts with \<open>BEGIN:VCALENDAR\<close>; a response has a path when it has
  exactly one href; properties are looked up by element name.
\<close>

datatype reply = Http HTTPResponse | Multi MultiStatus | Fail error

definition lookup_prop :: "RawProp \<Rightarrow> string \<Rightarrow> error + string" where
  "lookup_prop p name = (case map_of p name of None \<Rightarrow> Inl (HTTPError 404) | Some v \<Rightarrow> Inr v)"

definition scripted :: "(reply list, string) Env" where
  "scripted =
     \<lparr>ical_Encode = Inr,
      ical_Decode = (\<lambda>b. if take 15 b = ''BEGIN:VCALENDAR'' then Inr b
                          else Inl (Other ''ical: malformed document'')),
      ic_NewRequest =
        (\<lambda>m p b. Inr \<lparr>Method = m, URLPath = p, ReqHeader = Map.empty, ReqBody = b\<rparr>),
      ic_Do = (\<lambda>req w. case w of
                 Http r # rest \<Rightarrow> (Inr (r\<lparr>RequestURLPath := URLPath req\<rparr>), rest)
               | Fail e # rest \<Rightarrow> (Inl e, rest)
               | _ \<Rightarrow> (Inl (Other ''transport''), w)),
      ic_SyncCollection = (\<lambda>calendar token depth prop w. case w of
                 Multi ms # rest \<Rightarrow> (Inr ms, rest)
               | Fail e # rest \<Rightarrow> (Inl e, rest)
               | _ \<Rightarrow> (Inl (Other ''transport''), w)),
      ic_QueryReport = (\<lambda>st calendar q w. case w of
                 Multi ms # rest \<Rightarrow> (Inr ms, rest)
               | Fail e # rest \<Rightarrow> (Inl e, rest)
               | _ \<Rightarrow> (Inl (Other ''transport''), w)),
      time_Now = (\<lambda>w. (1000, w)),
      internal_EncodeProp = Inr [(''calendar-data'', []), (''getetag'', [])],
      internal_DepthOne = 1,
      internal_IsNotFound = (\<lambda>e. as_HTTPError e = Some 404),
      Response_Path = (\<lambda>r. case Hrefs r of
                 [h] \<Rightarrow> Inr h
               | _ \<Rightarrow> Inl (Errorf ''webdav: malformed response'')),
      Response_Err = (\<lambda>r. None),
      DecodeProp_calendarData =
        (\<lambda>r. lookup_prop (concat (map Prop (PropStats r))) ''calendar-data''),
      DecodeProp_GetLastModified = (\<lambda>r. Inl (HTTPError 404)),
      DecodeProp_GetETag = (\<lambda>r. lookup_prop (concat (map Prop (PropStats r))) ''getetag''),
      DecodeProp_GetContentLength = (\<lambda>r. Inl (HTTPError 404)),
      Prop_Decode_GetETag = (\<lambda>p. lookup_prop p ''getetag''),
      Prop_Decode_calendarData = (\<lambda>p. lookup_prop p ''calendar-data''),
      url_Parse = Inr,
      strconv_Unquote_rest = (\<lambda>s. Inl ErrSyntax),
      strconv_ParseInt = (\<lambda>s. Inl ErrSyntax),
      http_ParseTime = (\<lambda>s. if s = ''Mon, 01 Jan 2024 00:00:00 GMT'' then Inr 500
                             else if s = ''Wed, 01 Jan 2025 00:00:00 GMT'' then Inr 2000
                             else Inl (Other ''parsing time'')),
      mime_ParseMediaType = (\<lambda>s. if s = [] then Inl (Other ''mime: no media type'')
                                  else Inr (takeWhile (\<lambda>c. c \<noteq> CHR '';'') s)),
      strings_EqualFold = (=)\<rparr>"




text \<open>
  The query of the package's examples: the filter \<open>VCALENDAR\<close> with the one nested
  filter \<open>VEVENT\<close>, whose backing array is at address 1 of the store.
\<close>

definition example_store :: Store where
  "example_store =
     (\<lambda>a. if a = 1
          then [\<lparr>Name = ''VEVENT'', Start = 0, End = 0, Props = nil_Slice, Comps = nil_Slice\<rparr>]
          else [])"

definition example_query :: CalendarQuery where
  "example_query =
     \<lparr>q_CompRequest = CalendarCompRequest ''VCALENDAR'' False [] False [] None,
      q_CompFilter = \<lparr>Name = ''VCALENDAR'', Start = 0, End = 0, Props = nil_Slice,
                      Comps = \<lparr>array = 1, offset = 0, len = 1\<rparr>\<rparr>\<rparr>"

text \<open>
  Responses of a multistatus: one without href, the collection's own entry (no calendar
  data), and a calendar object with the given path and calendar data.
\<close>

definition status_200 :: Status where
  "status_200 = \<lparr>Code = 200, Text = ''HTTP/1.1 200 OK''\<rparr>"

definition response_no_href :: Response where
  "response_no_href = \<lparr>Hrefs = [], resp_Status = None, PropStats = []\<rparr>"

definition response_collection :: Response where
  "response_collection =
     \<lparr>Hrefs = [''/cal/''], resp_Status = None,
      PropStats = [\<lparr>Prop = [(''getetag'', ''c0'')], ps_Status = status_200\<rparr>]\<rparr>"

definition response_event :: "string \<Rightarrow> string \<Rightarrow> Response" where
  "response_event path calData =
     \<lparr>Hrefs = [path], resp_Status = None,
      PropStats = [\<lparr>Prop = [(''getetag'', ''t1''), (''calendar-data'', calData)],
                    ps_Status = status_200\<rparr>]\<rparr>"



section \<open>Properties\<close>

text \<open>
  C1 (as amended). The null-object contract of the three built-in resolvers.
  \<open>LastModifiedWinsResolver\<close> answers \<open>Skip\<close> when both objects are nil, \<open>UseRemote\<close> when
  only the local one is nil and \<open>UseLocal\<close> when only the remote one is nil.
  \<open>AlwaysUseLocalResolver\<close> looks at the local object alone: \<open>UseRemote\<close> whenever it is
  nil (also when both are nil), \<open>UseLocal\<close> when only the remote one is nil.
  \<open>AlwaysUseRemoteResolver\<close> looks at the remote object alone: \<open>UseLocal\<close> whenever it is
  nil (also when both are nil), \<open>UseRemote\<close> when only the local one is nil.
\<close>

theorem C1_null_object_contract:
  "LastModifiedWinsResolver None None = Skip
   \<and> LastModifiedWinsResolver None (Some remote) = UseRemote
   \<and> LastModifiedWinsResolver (Some local) None = UseLocal
   \<and> AlwaysUseLocalResolver None (Some remote) = UseRemote
   \<and> AlwaysUseLocalResolver (Some local) None = UseLocal
   \<and> AlwaysUseLocalResolver None None = UseRemote
   \<and> AlwaysUseRemoteResolver None (Some remote) = UseRemote
   \<and> AlwaysUseRemoteResolver (Some local) None = UseLocal
   \<and> AlwaysUseRemoteResolver None None = UseLocal"
  by simp

text \<open>
  C1 as stated fails: with both objects nil, \<open>AlwaysUseLocalResolver\<close> answers \<open>UseRemote\<close>
  and \<open>AlwaysUseRemoteResolver\<close> answers \<open>UseLocal\<close>, neither of which is \<open>Skip\<close>.
\<close>

theorem C1_both_nil_counterexample:
  "AlwaysUseLocalResolver (None :: string CalendarObject option) None \<noteq> Skip
   \<and> AlwaysUseRemoteResolver (None :: string CalendarObject option) None \<noteq> Skip"
  by (simp add: UseLocal_def UseRemote_def Skip_def)

text \<open>
  C8. \<open>ExtractUID\<close> on an item without UID whose path ends in the segment \<open>.ics\<close> returns
  that segment unchanged, where stripping the trailing \<open>.ics\<close> gives the empty string;
  \<open>extractUIDFromPath\<close>, whose logic the function's comment says it shares, returns the
  empty string on the same path.
\<close>

theorem C8_ExtractUID_bare_ics:
  "ExtractUID \<lparr>sdi_Path = ''/cal/.ics'', UID = []\<rparr> = ''.ics''
   \<and> extractUIDFromPath ''/cal/.ics'' = []"
  by (simp add: ExtractUID_def extractUIDFromPath_def strings_HasSuffix_def Let_def)


subsection \<open>The conditional write and its conflict flow\<close>










subsection \<open>Synchronisation: token and expiry\<close>





subsection \<open>ETags\<close>








subsection \<open>The time range of a query\<close>

text \<open>
  C4. The caller's query has the filter \<open>VCALENDAR\<close> with the one nested filter
  \<open>VEVENT\<close>, whose \<open>Start\<close> and \<open>End\<close> are zero, and the options carry the range from
  100 to 200. After \<open>QueryCalendar\<close> has returned, the nested filter of the caller's own
  query has \<open>Start\<close> 100 and \<open>End\<close> 200: the copy \<open>modifiedQuery\<close> shares the backing
  array of \<open>Comps\<close> with the original, and the assignments go through it.
\<close>

theorem C4_original_query_mutated:
  "(case QueryCalendar scripted example_store [Multi \<lparr>Responses = [], ms_SyncToken = []\<rparr>]
           ''/cal/'' example_query
           (Some \<lparr>TimeRangeStart = Some 100, TimeRangeEnd = Some 200, qo_SyncToken = []\<rparr>) of
      (r, st, w) \<Rightarrow>
        r = (Some [], None)
        \<and> Start (slice_get example_store (Comps (q_CompFilter example_query)) 0) = 0
        \<and> End (slice_get example_store (Comps (q_CompFilter example_query)) 0) = 0
        \<and> Start (slice_get st (Comps (q_CompFilter example_query)) 0) = 100
        \<and> End (slice_get st (Comps (q_CompFilter example_query)) 0) = 200)"
  by (simp add: QueryCalendar_def example_store_def example_query_def slice_get_def
      slice_set_def scripted_def decodeCalendarObjectList_def errors_Join_def)

text \<open>
  C9. With the same query, options in which exactly one of \<open>TimeRangeStart\<close> and
  \<open>TimeRangeEnd\<close> is nil make \<open>QueryCalendar\<close> dereference the nil pointer: the call
  panics.
\<close>

theorem C9_one_nil_bound_panics:
  "fst (QueryCalendar scripted example_store [Multi \<lparr>Responses = [], ms_SyncToken = []\<rparr>]
          ''/cal/'' example_query
          (Some \<lparr>TimeRangeStart = Some 100, TimeRangeEnd = None, qo_SyncToken = []\<rparr>))
     = (None, Some PanicNilDereference)
   \<and> fst (QueryCalendar scripted example_store [Multi \<lparr>Responses = [], ms_SyncToken = []\<rparr>]
          ''/cal/'' example_query
          (Some \<lparr>TimeRangeStart = None, TimeRangeEnd = Some 200, qo_SyncToken = []\<rparr>))
     = (None, Some PanicNilDereference)"
  by (simp add: QueryCalendar_def example_store_def example_query_def slice_get_def
      slice_set_def)


subsection \<open>The multistatus decoder\<close>

lemma decodeCalendarObjectList_loop_no_abort:
  "list_all (\<lambda>s. \<not> is_Abort s) (map (decode_entry env) rs) \<Longrightarrow>
   decodeCalendarObjectList_loop env rs addrs errs
     = (Some (addrs @ appended (map (decode_entry env) rs)),
        errors_Join (errs @ recorded (map (decode_entry env) rs)))"
proof (induction rs arbitrary: addrs errs)
  case Nil
  show ?case by (simp add: appended_def recorded_def)
next
  case (Cons resp rest)
  then show ?case
    by (cases "decode_entry env resp") (simp_all add: appended_def recorded_def)
qed

lemma decodeCalendarObjectList_loop_abort:
  "map (decode_entry env) rs = pre @ Abort err # post \<Longrightarrow>
   list_all (\<lambda>s. \<not> is_Abort s) pre \<Longrightarrow>
   decodeCalendarObjectList_loop env rs addrs errs = (None, Some err)"
proof (induction rs arbitrary: pre addrs errs)
  case Nil
  then show ?case by simp
next
  case (Cons resp rest)
  show ?case
  proof (cases pre)
    case Nil
    with Cons.prems show ?thesis by simp
  next
    case (Cons s pre')
    with Cons.prems have step: "decode_entry env resp = s" "\<not> is_Abort s"
      and tl: "map (decode_entry env) rest = pre' @ Abort err # post"
        "list_all (\<lambda>s. \<not> is_Abort s) pre'"
      by simp_all
    from step Cons.IH [OF tl] show ?thesis
      by (cases s) simp_all
  qed
qed

lemma decode_entry_no_data:
  assumes "Response_Path env resp = Inr path"
    and "tolerate env [] (DecodeProp_calendarData env resp) = Inr []"
  shows "decode_entry env resp = SkipEntry"
  using assms by (simp add: decode_entry_def)

text \<open>
  C6. The rounds of the decoder's loop are the values of \<open>decode_entry\<close> on the
  responses. A response whose path cannot be extracted records the error; a response
  without calendar data (the property is not found, or empty) is skipped; a response
  whose calendar data does not decode aborts. When no round aborts, the call returns the
  objects built, in order, together with the join of the recorded path errors, in order.
  When a round aborts with an error and no earlier round does, the call returns that
  error and no objects, whatever was built before.
\<close>

theorem C6_decoder_failures:
  "(Response_Path env resp = Inl err \<longrightarrow> decode_entry env resp = RecordError err)
   \<and> (Response_Path env resp = Inr path
        \<and> tolerate env [] (DecodeProp_calendarData env resp) = Inr [] \<longrightarrow>
      decode_entry env resp = SkipEntry)
   \<and> (Response_Path env resp = Inr path
        \<and> tolerate env [] (DecodeProp_calendarData env resp) = Inr calData \<and> calData \<noteq> []
        \<and> tolerate env 0 (DecodeProp_GetLastModified env resp) = Inr getLastMod
        \<and> tolerate env [] (DecodeProp_GetETag env resp) = Inr getETag
        \<and> tolerate env 0 (DecodeProp_GetContentLength env resp) = Inr getContentLength \<longrightarrow>
      decode_entry env resp =
        (case ical_Decode env calData of
           Inl err \<Rightarrow> Abort err
         | Inr data \<Rightarrow> Append \<lparr>Path = path, ModTime = getLastMod,
                                ContentLength = getContentLength, ETag = getETag,
                                Data = Some data\<rparr>))
   \<and> (list_all (\<lambda>s. \<not> is_Abort s) (map (decode_entry env) (Responses ms)) \<longrightarrow>
      decodeCalendarObjectList env ms
        = (Some (appended (map (decode_entry env) (Responses ms))),
           errors_Join (recorded (map (decode_entry env) (Responses ms)))))
   \<and> (map (decode_entry env) (Responses ms) = pre @ Abort err # post
        \<and> list_all (\<lambda>s. \<not> is_Abort s) pre \<longrightarrow>
      decodeCalendarObjectList env ms = (None, Some err))"
proof (intro conjI impI)
  assume "Response_Path env resp = Inl err"
  then show "decode_entry env resp = RecordError err"
    by (simp add: decode_entry_def)
next
  assume "Response_Path env resp = Inr path
        \<and> tolerate env [] (DecodeProp_calendarData env resp) = Inr []"
  then show "decode_entry env resp = SkipEntry"
    by (simp add: decode_entry_no_data)
next
  assume "Response_Path env resp = Inr path
        \<and> tolerate env [] (DecodeProp_calendarData env resp) = Inr calData \<and> calData \<noteq> []
        \<and> tolerate env 0 (DecodeProp_GetLastModified env resp) = Inr getLastMod
        \<and> tolerate env [] (DecodeProp_GetETag env resp) = Inr getETag
        \<and> tolerate env 0 (DecodeProp_GetContentLength env resp) = Inr getContentLength"
  then show "decode_entry env resp =
        (case ical_Decode env calData of
           Inl err \<Rightarrow> Abort err
         | Inr data \<Rightarrow> Append \<lparr>Path = path, ModTime = getLastMod,
                                ContentLength = getContentLength, ETag = getETag,
                                Data = Some data\<rparr>)"
    by (simp add: decode_entry_def)
next
  assume "list_all (\<lambda>s. \<not> is_Abort s) (map (decode_entry env) (Responses ms))"
  then show "decodeCalendarObjectList env ms
        = (Some (appended (map (decode_entry env) (Responses ms))),
           errors_Join (recorded (map (decode_entry env) (Responses ms))))"
    using decodeCalendarObjectList_loop_no_abort [of env "Responses ms" "[]" "[]"]
    by (simp add: decodeCalendarObjectList_def)
next
  assume "map (decode_entry env) (Responses ms) = pre @ Abort err # post
        \<and> list_all (\<lambda>s. \<not> is_Abort s) pre"
  then show "decodeCalendarObjectList env ms = (None, Some err)"
    using decodeCalendarObjectList_loop_abort [of env "Responses ms" pre err post "[]" "[]"]
    by (simp add: decodeCalendarObjectList_def)
qed

text \<open>
  C6 on the scripted server: a response without href, the collection's entry and one
  event give the event and the recorded path error; with a further event whose calendar
  data is corrupt, the call returns the decode error and nothing else.
\<close>

theorem C6_decoder_failures_witness:
  "decode_entry scripted response_no_href = RecordError (Errorf ''webdav: malformed response'')
   \<and> decode_entry scripted response_collection = SkipEntry
   \<and> decode_entry scripted (response_event ''/cal/e2.ics'' ''garbage'')
       = Abort (Other ''ical: malformed document'')
   \<and> decodeCalendarObjectList scripted
         \<lparr>Responses = [response_no_href, response_collection,
                       response_event ''/cal/e1.ics'' ''BEGIN:VCALENDAR e1''],
          ms_SyncToken = []\<rparr>
       = (Some [\<lparr>Path = ''/cal/e1.ics'', ModTime = 0, ContentLength = 0, ETag = ''t1'',
                 Data = Some ''BEGIN:VCALENDAR e1''\<rparr>],
          Some (JoinError [Errorf ''webdav: malformed response'']))
   \<and> decodeCalendarObjectList scripted
         \<lparr>Responses = [response_no_href, response_event ''/cal/e1.ics'' ''BEGIN:VCALENDAR e1'',
                       response_event ''/cal/e2.ics'' ''garbage'',
                       response_event ''/cal/e3.ics'' ''BEGIN:VCALENDAR e3''],
          ms_SyncToken = []\<rparr>
       = (None, Some (Other ''ical: malformed document''))"
proof -
  let ?e1 = "\<lparr>Path = ''/cal/e1.ics'', ModTime = 0, ContentLength = 0, ETag = ''t1'',
              Data = Some ''BEGIN:VCALENDAR e1''\<rparr>"
  let ?perr = "Errorf ''webdav: malformed response''"
  let ?derr = "Other ''ical: malformed document''"
  have a: "decode_entry scripted response_no_href = RecordError ?perr"
    by (rule C6_decoder_failures [THEN conjunct1, THEN mp])
      (simp add: scripted_def response_no_href_def)
  have b: "decode_entry scripted response_collection = SkipEntry"
    by (rule C6_decoder_failures
          [where path = "''/cal/''", THEN conjunct2, THEN conjunct1, THEN mp])
      (simp add: scripted_def response_collection_def tolerate_def lookup_prop_def)
  have ev: "decode_entry scripted (response_event p d)
              = (case ical_Decode scripted d of
                   Inl err \<Rightarrow> Abort err
                 | Inr data \<Rightarrow> Append \<lparr>Path = p, ModTime = 0, ContentLength = 0,
                                        ETag = ''t1'', Data = Some data\<rparr>)"
    if "d \<noteq> []" for p d
    by (rule C6_decoder_failures
          [where path = p and calData = d and getLastMod = 0 and getETag = "''t1''"
             and getContentLength = 0,
           THEN conjunct2, THEN conjunct2, THEN conjunct1, THEN mp])
      (simp add: that scripted_def response_event_def tolerate_def lookup_prop_def)
  have c: "decode_entry scripted (response_event ''/cal/e2.ics'' ''garbage'') = Abort ?derr"
    by (simp add: ev) (simp add: scripted_def)
  have d1: "decode_entry scripted (response_event ''/cal/e1.ics'' ''BEGIN:VCALENDAR e1'')
              = Append ?e1"
    by (simp add: ev) (simp add: scripted_def)
  let ?ms1 = "\<lparr>Responses = [response_no_href, response_collection,
                 response_event ''/cal/e1.ics'' ''BEGIN:VCALENDAR e1''], ms_SyncToken = []\<rparr>"
  let ?ms2 = "\<lparr>Responses = [response_no_href,
                 response_event ''/cal/e1.ics'' ''BEGIN:VCALENDAR e1'',
                 response_event ''/cal/e2.ics'' ''garbage'',
                 response_event ''/cal/e3.ics'' ''BEGIN:VCALENDAR e3''], ms_SyncToken = []\<rparr>"
  have "decodeCalendarObjectList scripted ?ms1
          = (Some (appended (map (decode_entry scripted) (Responses ?ms1))),
             errors_Join (recorded (map (decode_entry scripted) (Responses ?ms1))))"
    by (rule C6_decoder_failures
          [THEN conjunct2, THEN conjunct2, THEN conjunct2, THEN conjunct1, THEN mp])
      (simp add: a b d1)
  then have d: "decodeCalendarObjectList scripted ?ms1 = (Some [?e1], Some (JoinError [?perr]))"
    by (simp add: a b d1 appended_def recorded_def errors_Join_def)
  have e: "decodeCalendarObjectList scripted ?ms2 = (None, Some ?derr)"
    by (rule C6_decoder_failures
          [where pre = "[RecordError ?perr, Append ?e1]"
             and post = "[decode_entry scripted
                            (response_event ''/cal/e3.ics'' ''BEGIN:VCALENDAR e3'')]",
           THEN conjunct2, THEN conjunct2, THEN conjunct2, THEN conjunct2, THEN mp])
      (simp add: a c d1)
  from a b c d e show ?thesis by blast
qed


subsection \<open>Classification of sync entries\<close>









end
